theory Spec2Isabelle
  imports Main "HOL-Library.Sublist"
begin

section \<open>Period and currency validators (index.ts, lines 12-22)\<close>

text \<open>
  The four period schemas are \<^verbatim>\<open>z.string().regex(...)\<close> with patterns that are all of one
  shape: between \<^verbatim>\<open>^\<close> and \<^verbatim>\<open>$\<close>, a sequence of single-character classes, each with an
  exact repetition count. A pattern is modelled as that sequence. Without the \<^verbatim>\<open>m\<close> flag
  \<^verbatim>\<open>$\<close> matches at the end of the input only, and \<^verbatim>\<open>\d\<close> is the class \<^verbatim>\<open>[0-9]\<close>.
\<close>

datatype atom =
    Digit                 \<comment> \<open>\<^verbatim>\<open>\d\<close>\<close>
  | Lit char              \<comment> \<open>a literal character\<close>
  | Range char char       \<comment> \<open>\<^verbatim>\<open>[a-b]\<close>\<close>

type_synonym regex = "(atom \<times> nat) list"

definition in_range :: "char \<Rightarrow> char \<Rightarrow> char \<Rightarrow> bool" where
  "in_range lo hi c = ((of_char lo :: nat) \<le> of_char c \<and> (of_char c :: nat) \<le> of_char hi)"

fun atom_matches :: "atom \<Rightarrow> char \<Rightarrow> bool" where
  "atom_matches Digit c = in_range (CHR ''0'') (CHR ''9'') c"
| "atom_matches (Lit l) c = (c = l)"
| "atom_matches (Range lo hi) c = in_range lo hi c"

definition expand :: "regex \<Rightarrow> atom list" where
  "expand r = concat (map (\<lambda>(a, n). replicate n a) r)"

definition regex_test :: "regex \<Rightarrow> string \<Rightarrow> bool" where
  "regex_test r s = list_all2 atom_matches (expand r) s"

definition dailyPeriodRegex :: regex where
  "dailyPeriodRegex = [(Digit, 4), (Lit (CHR ''-''), 1), (Digit, 2), (Lit (CHR ''-''), 1), (Digit, 2)]"

definition monthlyPeriodRegex :: regex where
  "monthlyPeriodRegex = [(Digit, 4), (Lit (CHR ''-''), 1), (Digit, 2)]"

definition quarterlyPeriodRegex :: regex where
  "quarterlyPeriodRegex =
     [(Digit, 4), (Lit (CHR ''-''), 1), (Lit (CHR ''Q''), 1), (Range (CHR ''1'') (CHR ''4''), 1)]"

definition annualPeriodRegex :: regex where
  "annualPeriodRegex = [(Digit, 4)]"

definition dailyPeriodSchema :: "string \<Rightarrow> bool" where
  "dailyPeriodSchema s = regex_test dailyPeriodRegex s"

definition monthlyPeriodSchema :: "string \<Rightarrow> bool" where
  "monthlyPeriodSchema s = regex_test monthlyPeriodRegex s"

definition quarterlyPeriodSchema :: "string \<Rightarrow> bool" where
  "quarterlyPeriodSchema s = regex_test quarterlyPeriodRegex s"

definition annualPeriodSchema :: "string \<Rightarrow> bool" where
  "annualPeriodSchema s = regex_test annualPeriodRegex s"

definition SUPPORTED_CURRENCIES :: "string list" where
  "SUPPORTED_CURRENCIES =
     [''USD'', ''GBP'', ''EUR'', ''JPY'', ''CNY'', ''HKD'', ''SGD'', ''MYR'', ''TWD'', ''KRW'',
      ''IDR'', ''INR'', ''AUD'', ''NZD'', ''CHF'', ''DKK'', ''NOK'', ''SEK'', ''AED'', ''PKR'']"

text \<open>
  \<^verbatim>\<open>z.enum(SUPPORTED_CURRENCIES).optional()\<close>: the argument is either missing
  (\<open>None\<close>) or a string, which must be one of the listed codes.
\<close>

definition currencySchema :: "string option \<Rightarrow> bool" where
  "currencySchema c = (case c of None \<Rightarrow> True | Some s \<Rightarrow> s \<in> set SUPPORTED_CURRENCIES)"

subsection \<open>The period grammars in the specification's words\<close>

text \<open>
  Section 4.1 of the specification describes the grammars by position: the daily one is
  four digits, a dash, two digits, a dash, two digits, and so on. These predicates say
  so directly, without a pattern.
\<close>

definition is_digit :: "char \<Rightarrow> bool" where
  "is_digit c = (c \<in> set ''0123456789'')"

definition daily_grammar :: "string \<Rightarrow> bool" where
  "daily_grammar s =
     (length s = 10 \<and> list_all is_digit (take 4 s) \<and> s ! 4 = CHR ''-'' \<and>
      list_all is_digit (take 2 (drop 5 s)) \<and> s ! 7 = CHR ''-'' \<and>
      list_all is_digit (drop 8 s))"

definition monthly_grammar :: "string \<Rightarrow> bool" where
  "monthly_grammar s =
     (length s = 7 \<and> list_all is_digit (take 4 s) \<and> s ! 4 = CHR ''-'' \<and>
      list_all is_digit (drop 5 s))"

definition quarterly_grammar :: "string \<Rightarrow> bool" where
  "quarterly_grammar s =
     (length s = 7 \<and> list_all is_digit (take 4 s) \<and> s ! 4 = CHR ''-'' \<and>
      s ! 5 = CHR ''Q'' \<and> s ! 6 \<in> set ''1234'')"

definition annual_grammar :: "string \<Rightarrow> bool" where
  "annual_grammar s = (length s = 4 \<and> list_all is_digit s)"

section \<open>JavaScript values and the runtime the server runs on\<close>

text \<open>
  The payload of an upstream response has the TypeScript type \<^verbatim>\<open>unknown\<close>; at run time it
  is whatever \<^verbatim>\<open>response.json()\<close> produced, a JSON value. Numbers are IEEE doubles and
  are left abstract (the type parameter \<open>'n\<close>).
\<close>

datatype 'n json =
    JNull
  | JBool bool
  | JNumber 'n
  | JString string
  | JArray "'n json list"
  | JObject "(string \<times> 'n json) list"

text \<open>
  A thrown value: an \<^verbatim>\<open>Error\<close> object with its \<^verbatim>\<open>name\<close> and \<^verbatim>\<open>message\<close>, or any other
  value, kept as what \<^verbatim>\<open>String(error)\<close> renders.
\<close>

datatype thrown =
    ErrorObj string string
  | NonError string

text \<open>
  Time is counted in milliseconds from the start of a call. A promise is fulfilled or
  rejected at some time, or never settles.
\<close>

type_synonym ms = nat

datatype 'a promise =
    Fulfilled ms 'a
  | Rejected ms thrown
  | Never

text \<open>
  What the upstream does with one request. \<^verbatim>\<open>fetch\<close> settles when the response headers
  arrive; the body is read afterwards, by \<^verbatim>\<open>response.json()\<close>. \<open>body_delay\<close> is the time
  from the headers to the end of the body, \<open>None\<close> when the body never ends.
\<close>

record response =
  status :: nat
  body :: string
  body_delay :: "ms option"

datatype fetch_behaviour =
    Headers ms response      \<comment> \<open>the headers arrive at this time\<close>
  | FetchFails ms thrown     \<comment> \<open>a transport fault rejects the fetch at this time\<close>
  | NoResponse               \<comment> \<open>nothing ever comes back\<close>

record request =
  req_url :: string
  req_method :: string
  req_headers :: "(string \<times> string) list"

record 'n runtime =
  process_env :: "string \<rightharpoonup> string"
  fetch :: "request \<Rightarrow> fetch_behaviour"
  JSON_parse :: "string \<Rightarrow> thrown + 'n json"
  JSON_stringify :: "'n json \<Rightarrow> nat \<Rightarrow> string"

text \<open>What a call does to the outside, in order.\<close>

datatype event =
    SetTimeout ms        \<comment> \<open>a timer is armed with this delay\<close>
  | Fetch request        \<comment> \<open>a network call is issued\<close>
  | Abort ms             \<comment> \<open>the timer fires and aborts the request, at this time\<close>
  | ClearTimeout ms      \<comment> \<open>the timer is cancelled, at this time\<close>

subsection \<open>URLs\<close>

text \<open>
  A URL object is its address and its list of query parameters. Every call site passes a
  constant base and endpoint that the URL parser leaves as they are and that hold no query,
  so \<^verbatim>\<open>new URL\<close> keeps the string and starts with no parameters. \<^verbatim>\<open>toString\<close> serialises
  the parameters as \<^verbatim>\<open>application/x-www-form-urlencoded\<close>.
\<close>

record url =
  href :: string
  searchParams :: "(string \<times> string) list"

definition new_URL :: "string \<Rightarrow> url" where
  "new_URL s = \<lparr>href = s, searchParams = []\<rparr>"

definition searchParams_append :: "url \<Rightarrow> string \<Rightarrow> string \<Rightarrow> url" where
  "searchParams_append u key v = u\<lparr>searchParams := searchParams u @ [(key, v)]\<rparr>"

definition hex_digit :: "nat \<Rightarrow> char" where
  "hex_digit n = ''0123456789ABCDEF'' ! (n mod 16)"

definition urlencode_keep :: string where
  "urlencode_keep =
     ''ABCDEFGHIJKLMNOPQRSTUVWXYZabcdefghijklmnopqrstuvwxyz0123456789*-._''"

definition urlencode_byte :: "char \<Rightarrow> string" where
  "urlencode_byte c =
     (if c = CHR '' '' then ''+''
      else if c \<in> set urlencode_keep then [c]
      else [CHR ''%'', hex_digit (of_char c div 16), hex_digit (of_char c mod 16)])"

definition urlencode :: "string \<Rightarrow> string" where
  "urlencode s = concat (map urlencode_byte s)"

fun join :: "string \<Rightarrow> string list \<Rightarrow> string" where
  "join sep [] = []"
| "join sep [x] = x"
| "join sep (x # y # ys) = x @ sep @ join sep (y # ys)"

definition url_toString :: "url \<Rightarrow> string" where
  "url_toString u =
     (if searchParams u = [] then href u
      else href u @ ''?'' @
           join ''&'' (map (\<lambda>(k, v). urlencode k @ ''='' @ urlencode v) (searchParams u)))"

subsection \<open>Decimal rendering of a status code\<close>

text \<open>The status is a number, and the template string renders it in decimal.\<close>

definition digit_char :: "nat \<Rightarrow> char" where
  "digit_char n = ''0123456789'' ! (n mod 10)"

function show_nat :: "nat \<Rightarrow> string" where
  "show_nat n =
     (if n < 10 then [digit_char n] else show_nat (n div 10) @ [digit_char (n mod 10)])"
  by pat_completeness auto
termination
  by (relation "measure (\<lambda>n. n)") auto

declare show_nat.simps [simp del]

subsection \<open>The serialiser behind \<^verbatim>\<open>JSON.stringify\<close>\<close>

text \<open>
  \<^verbatim>\<open>JSON.stringify(value, null, space)\<close> as the language defines it, on JSON values. A
  string is quoted with the escapes for the quote, the backslash and the control
  characters (a string is held as its UTF-8 bytes, which pass unchanged from \<open>0x20\<close> on).
  A number is printed by the number-to-string conversion when it is finite and as
  \<open>null\<close> otherwise; the conversion is an argument, \<open>None\<close> for a number that is not
  finite. With a gap, every element of a non-empty array or object goes on a line of its
  own, indented one gap more than its holder.
\<close>

definition hex_lower :: "nat \<Rightarrow> char" where
  "hex_lower n = ''0123456789abcdef'' ! (n mod 16)"

definition unicode_escape :: "char \<Rightarrow> string" where
  "unicode_escape c =
     [CHR 0x5C, CHR ''u'', CHR ''0'', CHR ''0'',
      hex_lower (of_char c div 16), hex_lower (of_char c mod 16)]"

definition quote_char :: "char \<Rightarrow> string" where
  "quote_char c =
     (if c = CHR 0x08 then [CHR 0x5C, CHR ''b'']
      else if c = CHR 0x09 then [CHR 0x5C, CHR ''t'']
      else if c = CHR 0x0A then [CHR 0x5C, CHR ''n'']
      else if c = CHR 0x0C then [CHR 0x5C, CHR ''f'']
      else if c = CHR 0x0D then [CHR 0x5C, CHR ''r'']
      else if c = CHR 0x22 then [CHR 0x5C, CHR 0x22]
      else if c = CHR 0x5C then [CHR 0x5C, CHR 0x5C]
      else if (of_char c :: nat) < 32 then unicode_escape c
      else [c])"

definition QuoteJSONString :: "string \<Rightarrow> string" where
  "QuoteJSONString s = [CHR 0x22] @ concat (map quote_char s) @ [CHR 0x22]"

fun SerializeJSONProperty ::
  "('n \<Rightarrow> string option) \<Rightarrow> string \<Rightarrow> string \<Rightarrow> 'n json \<Rightarrow> string"
where
  "SerializeJSONProperty num gap indent JNull = ''null''"
| "SerializeJSONProperty num gap indent (JBool b) = (if b then ''true'' else ''false'')"
| "SerializeJSONProperty num gap indent (JNumber n) =
     (case num n of Some s \<Rightarrow> s | None \<Rightarrow> ''null'')"
| "SerializeJSONProperty num gap indent (JString s) = QuoteJSONString s"
| "SerializeJSONProperty num gap indent (JArray xs) =
     (let partial = map (SerializeJSONProperty num gap (indent @ gap)) xs in
      if partial = [] then ''[]''
      else if gap = [] then ''['' @ join '','' partial @ '']''
      else ''['' @ [CHR 0x0A] @ indent @ gap @
           join ('','' @ [CHR 0x0A] @ indent @ gap) partial @
           [CHR 0x0A] @ indent @ '']'')"
| "SerializeJSONProperty num gap indent (JObject ms) =
     (let partial =
        map (\<lambda>m. QuoteJSONString (fst m) @ '':'' @ (if gap = [] then [] else '' '') @
                  SerializeJSONProperty num gap (indent @ gap) (snd m)) ms in
      if partial = [] then ''{}''
      else if gap = [] then ''{'' @ join '','' partial @ ''}''
      else ''{'' @ [CHR 0x0A] @ indent @ gap @
           join ('','' @ [CHR 0x0A] @ indent @ gap) partial @
           [CHR 0x0A] @ indent @ ''}'')"

definition stringify :: "('n \<Rightarrow> string option) \<Rightarrow> 'n json \<Rightarrow> nat \<Rightarrow> string" where
  "stringify num v space = SerializeJSONProperty num (replicate (min 10 space) (CHR '' '')) [] v"

section \<open>The upstream request gateway (index.ts, lines 7-69)\<close>

definition REFERENCE_RATE_BASE_URL :: string where
  "REFERENCE_RATE_BASE_URL = ''https://gateway.api.bot.or.th/Stat-ReferenceRate/v2''"

definition EXCHANGE_RATE_BASE_URL :: string where
  "EXCHANGE_RATE_BASE_URL = ''https://gateway.api.bot.or.th/Stat-ExchangeRate/v2''"

definition REQUEST_TIMEOUT_MS :: ms where
  "REQUEST_TIMEOUT_MS = 30000"

definition credential_error :: thrown where
  "credential_error =
     ErrorObj ''Error''
       ''BOT_API_KEY environment variable is not set. Please set it with your Bank of Thailand API key.''"

text \<open>Lines 34-39: every entry with a truthy (non-empty) value is appended, in order.\<close>

definition build_url :: "string \<Rightarrow> string \<Rightarrow> (string \<times> string) list \<Rightarrow> url" where
  "build_url baseUrl endpoint params =
     fold (\<lambda>(key, v) u. if v \<noteq> [] then searchParams_append u key v else u)
       params (new_URL (baseUrl @ endpoint))"

text \<open>Lines 46-53: what \<^verbatim>\<open>fetch\<close> is called with.\<close>

definition fetch_request :: "string \<Rightarrow> url \<Rightarrow> request" where
  "fetch_request apiKey u =
     \<lparr>req_url = url_toString u, req_method = ''GET'',
      req_headers = [(''Authorization'', apiKey), (''Accept'', ''application/json'')]\<rparr>"

definition response_ok :: "response \<Rightarrow> bool" where
  "response_ok r = (200 \<le> status r \<and> status r \<le> 299)"

definition status_error :: "response \<Rightarrow> thrown" where
  "status_error r = ErrorObj ''Error'' (''API request failed with status '' @ show_nat (status r))"

text \<open>The \<^verbatim>\<open>catch\<close> clause of lines 61-65.\<close>

definition catch_clause :: "thrown \<Rightarrow> thrown" where
  "catch_clause e =
     (case e of
        ErrorObj name msg \<Rightarrow>
          if name = ''AbortError'' then ErrorObj ''Error'' ''API request timed out'' else e
      | NonError v \<Rightarrow> e)"

text \<open>
  \<^verbatim>\<open>response.json()\<close> for headers that arrived at time \<open>t\<close>: it settles when the body has
  been read, with the parsed value or the parse failure.
\<close>

definition response_json :: "'n runtime \<Rightarrow> ms \<Rightarrow> response \<Rightarrow> 'n json promise" where
  "response_json rt t r =
     (case body_delay r of
        None \<Rightarrow> Never
      | Some d \<Rightarrow>
          (case JSON_parse rt (body r) of
             Inl e \<Rightarrow> Rejected (t + d) e
           | Inr v \<Rightarrow> Fulfilled (t + d) v))"

text \<open>
  The timer fires: \<^verbatim>\<open>controller.abort()\<close> rejects the pending fetch with an
  \<^verbatim>\<open>AbortError\<close>, which goes through the \<^verbatim>\<open>catch\<close> clause and then \<^verbatim>\<open>finally\<close>.
\<close>

definition timer_fires :: "event list \<Rightarrow> 'n json promise \<times> event list" where
  "timer_fires started =
     (Rejected REQUEST_TIMEOUT_MS
        (catch_clause (ErrorObj ''AbortError'' ''This operation was aborted'')),
      started @ [Abort REQUEST_TIMEOUT_MS, ClearTimeout REQUEST_TIMEOUT_MS])"

text \<open>
  \<^verbatim>\<open>makeApiRequest\<close>. The result is the promise the caller awaits and the trace of what
  the call did. \<^verbatim>\<open>return response.json()\<close> leaves the \<^verbatim>\<open>try\<close> block with a promise that
  is not awaited there, so \<^verbatim>\<open>finally\<close> runs (and the timer is cancelled) when the headers
  arrive, and neither \<^verbatim>\<open>catch\<close> nor the timer covers the reading of the body. A response
  and the timer at the same instant go to the timer.
\<close>

definition makeApiRequest ::
  "'n runtime \<Rightarrow> string \<Rightarrow> string \<Rightarrow> (string \<times> string) list \<Rightarrow> 'n json promise \<times> event list"
where
  "makeApiRequest rt baseUrl endpoint params =
     (case process_env rt ''BOT_API_KEY'' of
        None \<Rightarrow> (Rejected 0 credential_error, [])
      | Some apiKey \<Rightarrow>
          if apiKey = [] then (Rejected 0 credential_error, [])
          else
            let u = build_url baseUrl endpoint params;
                req = fetch_request apiKey u;
                started = [SetTimeout REQUEST_TIMEOUT_MS, Fetch req]
            in (case fetch rt req of
                  Headers t r \<Rightarrow>
                    if t < REQUEST_TIMEOUT_MS then
                      (if \<not> response_ok r
                       then (Rejected t (catch_clause (status_error r)), started @ [ClearTimeout t])
                       else (response_json rt t r, started @ [ClearTimeout t]))
                    else timer_fires started
                | FetchFails t e \<Rightarrow>
                    if t < REQUEST_TIMEOUT_MS
                    then (Rejected t (catch_clause e), started @ [ClearTimeout t])
                    else timer_fires started
                | NoResponse \<Rightarrow> timer_fires started))"

definition formatResponse :: "'n runtime \<Rightarrow> 'n json \<Rightarrow> string" where
  "formatResponse rt data = JSON_stringify rt data 2"

section \<open>The tools (index.ts, lines 86-296)\<close>

record content_item =
  ctype :: string
  ctext :: string

record envelope =
  content :: "content_item list"
  isError :: "bool option"

record args =
  start_period :: string
  end_period :: string
  currency :: "string option"

text \<open>\<^verbatim>\<open>error instanceof Error ? error.message : String(error)\<close>\<close>

definition failure_message :: "thrown \<Rightarrow> string" where
  "failure_message e = (case e of ErrorObj name msg \<Rightarrow> msg | NonError v \<Rightarrow> v)"

text \<open>
  The \<^verbatim>\<open>try\<close>/\<^verbatim>\<open>catch\<close> every handler wraps around its gateway call: the awaited value
  becomes a success envelope, anything thrown an error envelope; while the gateway's
  promise is pending the handler returns nothing.
\<close>

definition respond ::
  "'n runtime \<Rightarrow> 'n json promise \<times> event list \<Rightarrow> envelope promise \<times> event list"
where
  "respond rt res =
     (case fst res of
        Fulfilled t data \<Rightarrow>
          Fulfilled t \<lparr>content = [\<lparr>ctype = ''text'', ctext = formatResponse rt data\<rparr>],
                       isError = None\<rparr>
      | Rejected t e \<Rightarrow>
          Fulfilled t \<lparr>content = [\<lparr>ctype = ''text'', ctext = ''Error: '' @ failure_message e\<rparr>],
                       isError = Some True\<rparr>
      | Never \<Rightarrow> Never,
      snd res)"

text \<open>\<^verbatim>\<open>currency || ""\<close>\<close>

definition or_empty :: "string option \<Rightarrow> string" where
  "or_empty c = (case c of None \<Rightarrow> [] | Some s \<Rightarrow> s)"

definition get_daily_interbank_rate :: "'n runtime \<Rightarrow> args \<Rightarrow> envelope promise \<times> event list" where
  "get_daily_interbank_rate rt a =
     respond rt (makeApiRequest rt REFERENCE_RATE_BASE_URL ''/DAILY_REF_RATE/''
       [(''start_period'', start_period a), (''end_period'', end_period a)])"

definition get_monthly_interbank_rate :: "'n runtime \<Rightarrow> args \<Rightarrow> envelope promise \<times> event list" where
  "get_monthly_interbank_rate rt a =
     respond rt (makeApiRequest rt REFERENCE_RATE_BASE_URL ''/MONTHLY_REF_RATE/''
       [(''start_period'', start_period a), (''end_period'', end_period a)])"

definition get_quarterly_interbank_rate :: "'n runtime \<Rightarrow> args \<Rightarrow> envelope promise \<times> event list" where
  "get_quarterly_interbank_rate rt a =
     respond rt (makeApiRequest rt REFERENCE_RATE_BASE_URL ''/QUARTERLY_REF_RATE/''
       [(''start_period'', start_period a), (''end_period'', end_period a)])"

definition get_annual_interbank_rate :: "'n runtime \<Rightarrow> args \<Rightarrow> envelope promise \<times> event list" where
  "get_annual_interbank_rate rt a =
     respond rt (makeApiRequest rt REFERENCE_RATE_BASE_URL ''/ANNUAL_REF_RATE/''
       [(''start_period'', start_period a), (''end_period'', end_period a)])"

definition get_daily_exchange_rate :: "'n runtime \<Rightarrow> args \<Rightarrow> envelope promise \<times> event list" where
  "get_daily_exchange_rate rt a =
     respond rt (makeApiRequest rt EXCHANGE_RATE_BASE_URL ''/DAILY_AVG_EXG_RATE/''
       [(''start_period'', start_period a), (''end_period'', end_period a),
        (''currency'', or_empty (currency a))])"

definition get_monthly_exchange_rate :: "'n runtime \<Rightarrow> args \<Rightarrow> envelope promise \<times> event list" where
  "get_monthly_exchange_rate rt a =
     respond rt (makeApiRequest rt EXCHANGE_RATE_BASE_URL ''/MONTHLY_AVG_EXG_RATE/''
       [(''start_period'', start_period a), (''end_period'', end_period a),
        (''currency'', or_empty (currency a))])"

definition get_quarterly_exchange_rate :: "'n runtime \<Rightarrow> args \<Rightarrow> envelope promise \<times> event list" where
  "get_quarterly_exchange_rate rt a =
     respond rt (makeApiRequest rt EXCHANGE_RATE_BASE_URL ''/QUARTERLY_AVG_EXG_RATE/''
       [(''start_period'', start_period a), (''end_period'', end_period a),
        (''currency'', or_empty (currency a))])"

definition get_annual_exchange_rate :: "'n runtime \<Rightarrow> args \<Rightarrow> envelope promise \<times> event list" where
  "get_annual_exchange_rate rt a =
     respond rt (makeApiRequest rt EXCHANGE_RATE_BASE_URL ''/ANNUAL_AVG_EXG_RATE/''
       [(''start_period'', start_period a), (''end_period'', end_period a),
        (''currency'', or_empty (currency a))])"

text \<open>The registry: the eight tools, the schema each is registered with, and its handler.\<close>

datatype tool =
    Daily_interbank | Monthly_interbank | Quarterly_interbank | Annual_interbank
  | Daily_exchange | Monthly_exchange | Quarterly_exchange | Annual_exchange

fun input_schema :: "tool \<Rightarrow> args \<Rightarrow> bool" where
  "input_schema Daily_interbank a =
     (dailyPeriodSchema (start_period a) \<and> dailyPeriodSchema (end_period a))"
| "input_schema Monthly_interbank a =
     (monthlyPeriodSchema (start_period a) \<and> monthlyPeriodSchema (end_period a))"
| "input_schema Quarterly_interbank a =
     (quarterlyPeriodSchema (start_period a) \<and> quarterlyPeriodSchema (end_period a))"
| "input_schema Annual_interbank a =
     (annualPeriodSchema (start_period a) \<and> annualPeriodSchema (end_period a))"
| "input_schema Daily_exchange a =
     (dailyPeriodSchema (start_period a) \<and> dailyPeriodSchema (end_period a) \<and>
      currencySchema (currency a))"
| "input_schema Monthly_exchange a =
     (monthlyPeriodSchema (start_period a) \<and> monthlyPeriodSchema (end_period a) \<and>
      currencySchema (currency a))"
| "input_schema Quarterly_exchange a =
     (quarterlyPeriodSchema (start_period a) \<and> quarterlyPeriodSchema (end_period a) \<and>
      currencySchema (currency a))"
| "input_schema Annual_exchange a =
     (annualPeriodSchema (start_period a) \<and> annualPeriodSchema (end_period a) \<and>
      currencySchema (currency a))"

fun handler :: "tool \<Rightarrow> 'n runtime \<Rightarrow> args \<Rightarrow> envelope promise \<times> event list" where
  "handler Daily_interbank = get_daily_interbank_rate"
| "handler Monthly_interbank = get_monthly_interbank_rate"
| "handler Quarterly_interbank = get_quarterly_interbank_rate"
| "handler Annual_interbank = get_annual_interbank_rate"
| "handler Daily_exchange = get_daily_exchange_rate"
| "handler Monthly_exchange = get_monthly_exchange_rate"
| "handler Quarterly_exchange = get_quarterly_exchange_rate"
| "handler Annual_exchange = get_annual_exchange_rate"

text \<open>
  The upstream call of each tool in the specification's words: the table of section 4.3
  (rate family, base URL, endpoint suffix by granularity) and the parameters of section 6.
\<close>

fun call_spec :: "tool \<Rightarrow> args \<Rightarrow> string \<times> string \<times> (string \<times> string) list" where
  "call_spec Daily_interbank a =
     (REFERENCE_RATE_BASE_URL, ''/DAILY_REF_RATE/'',
      [(''start_period'', start_period a), (''end_period'', end_period a)])"
| "call_spec Monthly_interbank a =
     (REFERENCE_RATE_BASE_URL, ''/MONTHLY_REF_RATE/'',
      [(''start_period'', start_period a), (''end_period'', end_period a)])"
| "call_spec Quarterly_interbank a =
     (REFERENCE_RATE_BASE_URL, ''/QUARTERLY_REF_RATE/'',
      [(''start_period'', start_period a), (''end_period'', end_period a)])"
| "call_spec Annual_interbank a =
     (REFERENCE_RATE_BASE_URL, ''/ANNUAL_REF_RATE/'',
      [(''start_period'', start_period a), (''end_period'', end_period a)])"
| "call_spec Daily_exchange a =
     (EXCHANGE_RATE_BASE_URL, ''/DAILY_AVG_EXG_RATE/'',
      [(''start_period'', start_period a), (''end_period'', end_period a),
       (''currency'', or_empty (currency a))])"
| "call_spec Monthly_exchange a =
     (EXCHANGE_RATE_BASE_URL, ''/MONTHLY_AVG_EXG_RATE/'',
      [(''start_period'', start_period a), (''end_period'', end_period a),
       (''currency'', or_empty (currency a))])"
| "call_spec Quarterly_exchange a =
     (EXCHANGE_RATE_BASE_URL, ''/QUARTERLY_AVG_EXG_RATE/'',
      [(''start_period'', start_period a), (''end_period'', end_period a),
       (''currency'', or_empty (currency a))])"
| "call_spec Annual_exchange a =
     (EXCHANGE_RATE_BASE_URL, ''/ANNUAL_AVG_EXG_RATE/'',
      [(''start_period'', start_period a), (''end_period'', end_period a),
       (''currency'', or_empty (currency a))])"

definition gateway :: "'n runtime \<Rightarrow> tool \<Rightarrow> args \<Rightarrow> 'n json promise \<times> event list" where
  "gateway rt t a =
     (case call_spec t a of (baseUrl, endpoint, params) \<Rightarrow> makeApiRequest rt baseUrl endpoint params)"

text \<open>The network calls in a trace.\<close>

fun issued :: "event list \<Rightarrow> request list" where
  "issued [] = []"
| "issued (Fetch r # es) = r # issued es"
| "issued (e # es) = issued es"

text \<open>
  The server process: the only state a call reads is the environment, so a run is a
  sequence of environment changes and handler calls, each call seeing the environment as
  it is at that moment.
\<close>

datatype step =
    SetEnv string string
  | CallTool tool args

fun run :: "'n runtime \<Rightarrow> step list \<Rightarrow> (envelope promise \<times> event list) list" where
  "run rt [] = []"
| "run rt (SetEnv k v # steps) = run (rt\<lparr>process_env := (process_env rt)(k \<mapsto> v)\<rparr>) steps"
| "run rt (CallTool t a # steps) = handler t rt a # run rt steps"

section \<open>The currency resource (index.ts, lines 302-319 and 356-380)\<close>

definition descriptions :: "(string \<times> string) list" where
  "descriptions =
     [(''USD'', ''United States Dollar''),
      (''GBP'', ''British Pound Sterling''),
      (''EUR'', ''Euro''),
      (''JPY'', ''Japanese Yen''),
      (''CNY'', ''Chinese Yuan Renminbi''),
      (''HKD'', ''Hong Kong Dollar''),
      (''SGD'', ''Singapore Dollar''),
      (''MYR'', ''Malaysian Ringgit''),
      (''TWD'', ''Taiwan Dollar''),
      (''KRW'', ''South Korean Won''),
      (''IDR'', ''Indonesian Rupiah''),
      (''INR'', ''Indian Rupee''),
      (''AUD'', ''Australian Dollar''),
      (''NZD'', ''New Zealand Dollar''),
      (''CHF'', ''Swiss Franc''),
      (''DKK'', ''Danish Krone''),
      (''NOK'', ''Norwegian Krone''),
      (''SEK'', ''Swedish Krona''),
      (''AED'', ''UAE Dirham''),
      (''PKR'', ''Pakistani Rupee'')]"

text \<open>
  \<^verbatim>\<open>descriptions[code] || code\<close>. The table is an object literal, so a lookup also finds
  the names every object inherits; for those the result is not the code. They are listed
  here and the function is modelled on all other names.
\<close>

definition inherited_names :: "string list" where
  "inherited_names =
     [''constructor'', ''__proto__'', ''__defineGetter__'', ''__defineSetter__'',
      ''__lookupGetter__'', ''__lookupSetter__'', ''hasOwnProperty'', ''isPrototypeOf'',
      ''propertyIsEnumerable'', ''toLocaleString'', ''toString'', ''valueOf'']"

definition getCurrencyDescription :: "string \<Rightarrow> string" where
  "getCurrencyDescription code =
     (case map_of descriptions code of
        None \<Rightarrow> code
      | Some d \<Rightarrow> if d = [] then code else d)"

definition currencyInfo :: "(string \<times> string) list" where
  "currencyInfo = map (\<lambda>code. (code, getCurrencyDescription code)) SUPPORTED_CURRENCIES"

definition entry_json :: "string \<times> string \<Rightarrow> 'n json" where
  "entry_json e = JObject [(''code'', JString (fst e)), (''description'', JString (snd e))]"

record resource_content =
  uri :: string
  mimeType :: string
  res_text :: string

definition supported_currencies :: "'n runtime \<Rightarrow> resource_content list" where
  "supported_currencies rt =
     [\<lparr>uri = ''bot://currencies'', mimeType = ''application/json'',
       res_text = JSON_stringify rt (JArray (map entry_json currencyInfo)) 2\<rparr>]"

section \<open>Concrete inputs\<close>

text \<open>
  The invocation of the specification's examples, and runtimes in which the upstream
  behaves in one fixed way: no credential configured; no answer at all; an HTTP 404 with
  a body; a response whose headers come at once and whose body ends after the deadline; a
  payload read in time; the payload \<open>1e999\<close>.
\<close>

definition example_args :: args where
  "example_args =
     \<lparr>start_period = ''2024-01-01'', end_period = ''2024-01-31'', currency = None\<rparr>"

definition example_request :: request where
  "example_request =
     \<lparr>req_url = ''https://gateway.api.bot.or.th/Stat-ReferenceRate/v2/DAILY_REF_RATE/?start_period=2024-01-01&end_period=2024-01-31'',
      req_method = ''GET'',
      req_headers = [(''Authorization'', ''key''), (''Accept'', ''application/json'')]\<rparr>"

text \<open>
  The numbers of the examples: the doubles that are whole numbers of at most 15 digits
  (\<open>Finite\<close>, printed in decimal), and the values that are not finite.
\<close>

datatype jsnumber =
    Finite int
  | PosInfinity
  | NegInfinity
  | NaN

definition number_text :: "jsnumber \<Rightarrow> string option" where
  "number_text n =
     (case n of
        Finite i \<Rightarrow> Some (if i < 0 then ''-'' @ show_nat (nat (- i)) else show_nat (nat i))
      | _ \<Rightarrow> None)"

definition rate_payload :: "jsnumber json" where
  "rate_payload =
     JObject [(''period'', JString ''2024-01-02''), (''rate'', JString ''34.3583''),
              (''count'', JNumber (Finite 1))]"

definition rate_body :: string where
  "rate_body = ''{\"period\":\"2024-01-02\",\"rate\":\"34.3583\",\"count\":1}''"

definition rate_text :: string where
  "rate_text =
     ''{'' @ [CHR 0x0A] @
     ''  \"period\": \"2024-01-02\",'' @ [CHR 0x0A] @
     ''  \"rate\": \"34.3583\",'' @ [CHR 0x0A] @
     ''  \"count\": 1'' @ [CHR 0x0A] @
     ''}''"

text \<open>
  What \<^verbatim>\<open>JSON.parse\<close> gives on the texts the examples meet; \<open>1e999\<close> is beyond the
  largest double and is read as infinity. Any other text is taken as malformed.
\<close>

definition parse_table :: "(string \<times> jsnumber json) list" where
  "parse_table =
     [(''[]'', JArray []),
      (''null'', JNull),
      (''1e999'', JNumber PosInfinity),
      (rate_body, rate_payload),
      (rate_text, rate_payload)]"

definition example_parse :: "string \<Rightarrow> thrown + jsnumber json" where
  "example_parse s =
     (case map_of parse_table s of
        Some v \<Rightarrow> Inr v
      | None \<Rightarrow> Inl (ErrorObj ''SyntaxError'' ''Unexpected token''))"

definition upstream_runtime :: "string option \<Rightarrow> fetch_behaviour \<Rightarrow> jsnumber runtime" where
  "upstream_runtime key behaviour =
     \<lparr>process_env = (case key of None \<Rightarrow> Map.empty | Some k \<Rightarrow> [''BOT_API_KEY'' \<mapsto> k]),
      fetch = (\<lambda>req. behaviour),
      JSON_parse = example_parse,
      JSON_stringify = stringify number_text\<rparr>"

definition no_credential_runtime :: "jsnumber runtime" where
  "no_credential_runtime = upstream_runtime None NoResponse"

definition silent_runtime :: "jsnumber runtime" where
  "silent_runtime = upstream_runtime (Some ''key'') NoResponse"

definition not_found_response :: response where
  "not_found_response =
     \<lparr>status = 404, body = ''upstream detail: no such series'', body_delay = Some 5\<rparr>"

definition not_found_runtime :: "jsnumber runtime" where
  "not_found_runtime = upstream_runtime (Some ''key'') (Headers 120 not_found_response)"

definition slow_body_runtime :: "jsnumber runtime" where
  "slow_body_runtime =
     upstream_runtime (Some ''key'')
       (Headers 100 \<lparr>status = 200, body = ''[]'', body_delay = Some 99900\<rparr>)"

definition rate_response :: response where
  "rate_response = \<lparr>status = 200, body = rate_body, body_delay = Some 20\<rparr>"

definition rate_runtime :: "jsnumber runtime" where
  "rate_runtime = upstream_runtime (Some ''key'') (Headers 100 rate_response)"

definition overflow_response :: response where
  "overflow_response = \<lparr>status = 200, body = ''1e999'', body_delay = Some 20\<rparr>"

definition overflow_runtime :: "jsnumber runtime" where
  "overflow_runtime = upstream_runtime (Some ''key'') (Headers 100 overflow_response)"

text \<open>The envelope of a call made without a credential.\<close>

definition credential_error_envelope :: envelope where
  "credential_error_envelope =
     \<lparr>content = [\<lparr>ctype = ''text'',
        ctext = ''Error: BOT_API_KEY environment variable is not set. Please set it with your Bank of Thailand API key.''\<rparr>],
      isError = Some True\<rparr>"

section \<open>Validator properties\<close>

lemma char_eq_code: "(c = d) = ((of_char c :: nat) = of_char d)"
  by simp

lemma in_range_digit: "in_range (CHR ''0'') (CHR ''9'') c = is_digit c"
proof -
  have "is_digit c = ((of_char c :: nat) \<in> {48, 49, 50, 51, 52, 53, 54, 55, 56, 57})"
    unfolding is_digit_def by (simp add: char_eq_code [of c])
  also have "\<dots> = (48 \<le> (of_char c :: nat) \<and> (of_char c :: nat) \<le> 57)"
    by (simp only: insert_iff empty_iff) arith
  finally show ?thesis
    by (simp add: in_range_def)
qed

lemma in_range_quarter: "in_range (CHR ''1'') (CHR ''4'') c = (c \<in> set ''1234'')"
proof -
  have "(c \<in> set ''1234'') = ((of_char c :: nat) \<in> {49, 50, 51, 52})"
    by (simp add: char_eq_code [of c])
  also have "\<dots> = (49 \<le> (of_char c :: nat) \<and> (of_char c :: nat) \<le> 52)"
    by (simp only: insert_iff empty_iff) arith
  finally show ?thesis
    by (simp add: in_range_def)
qed

lemma len_Suc: "(length s = Suc n) = (\<exists>c t. s = c # t \<and> length t = n)"
  by (cases s) auto

lemma daily_refines: "dailyPeriodSchema s = daily_grammar s"
  unfolding dailyPeriodSchema_def regex_test_def dailyPeriodRegex_def expand_def daily_grammar_def
  apply (simp add: numeral_eq_Suc list_all2_Cons1 in_range_digit)
  apply (auto simp: len_Suc)
  done

lemma monthly_refines: "monthlyPeriodSchema s = monthly_grammar s"
  unfolding monthlyPeriodSchema_def regex_test_def monthlyPeriodRegex_def expand_def
    monthly_grammar_def
  apply (simp add: numeral_eq_Suc list_all2_Cons1 in_range_digit)
  apply (auto simp: len_Suc)
  done

lemma quarterly_refines: "quarterlyPeriodSchema s = quarterly_grammar s"
  unfolding quarterlyPeriodSchema_def regex_test_def quarterlyPeriodRegex_def expand_def
    quarterly_grammar_def
  apply (simp add: numeral_eq_Suc list_all2_Cons1 in_range_digit in_range_quarter)
  apply (auto simp: len_Suc)
  done

lemma annual_refines: "annualPeriodSchema s = annual_grammar s"
  unfolding annualPeriodSchema_def regex_test_def annualPeriodRegex_def expand_def
    annual_grammar_def
  apply (simp add: numeral_eq_Suc list_all2_Cons1 in_range_digit)
  apply (auto simp: len_Suc)
  done

lemma period_examples:
  "daily_grammar ''2024-13-99''"
  "\<not> daily_grammar '' 2024-01-01''"
  "\<not> daily_grammar ''2024-01-01 ''"
  "\<not> daily_grammar ''2024-1-1''"
  "\<not> monthly_grammar ''2024-1''"
  "quarterly_grammar ''2024-Q4''"
  "\<not> quarterly_grammar ''2024-q1''"
  "\<not> quarterly_grammar ''2024-Q5''"
  "\<not> annual_grammar ''24''"
  by (simp_all add: daily_grammar_def monthly_grammar_def quarterly_grammar_def
      annual_grammar_def is_digit_def)

text \<open>
  Claim C6. Each period validator accepts exactly the strings of its grammar: the daily
  one four digits, a dash, two digits, a dash and two digits, the monthly one four digits,
  a dash and two digits, the quarterly one four digits, a dash, \<open>Q\<close> and one of \<open>1\<close> to
  \<open>4\<close>, the annual one four digits. Nothing of the calendar is checked (\<open>2024-13-99\<close>
  is a daily period) and the input is taken as it is: surrounding blanks and a lower-case
  \<open>q\<close> are rejected.
\<close>

theorem period_validators_syntactic:
  "dailyPeriodSchema s = daily_grammar s \<and>
   monthlyPeriodSchema s = monthly_grammar s \<and>
   quarterlyPeriodSchema s = quarterly_grammar s \<and>
   annualPeriodSchema s = annual_grammar s \<and>
   dailyPeriodSchema ''2024-13-99'' \<and>
   \<not> dailyPeriodSchema '' 2024-01-01'' \<and>
   \<not> dailyPeriodSchema ''2024-01-01 '' \<and>
   quarterlyPeriodSchema ''2024-Q4'' \<and>
   \<not> quarterlyPeriodSchema ''2024-q1'' \<and>
   \<not> quarterlyPeriodSchema ''2024-Q5''"
  by (simp add: daily_refines monthly_refines quarterly_refines annual_refines period_examples)

text \<open>
  Claim C7. The currency validator accepts a missing value, and accepts a string exactly
  when it is one of the twenty codes of the fixed set, compared as it is: \<open>usd\<close> and
  \<open>USD\<close> with a blank are rejected.
\<close>

theorem currency_validator_exact:
  "currencySchema None \<and>
   currencySchema (Some s) = (s \<in> set SUPPORTED_CURRENCIES) \<and>
   length SUPPORTED_CURRENCIES = 20 \<and>
   distinct SUPPORTED_CURRENCIES \<and>
   list_all (\<lambda>c. currencySchema (Some c)) SUPPORTED_CURRENCIES \<and>
   \<not> currencySchema (Some ''usd'') \<and>
   \<not> currencySchema (Some ''USD '') \<and>
   \<not> currencySchema (Some [])"
  by (simp add: currencySchema_def SUPPORTED_CURRENCIES_def)

section \<open>The gateway and the handlers\<close>

lemma handler_gateway: "handler t rt a = respond rt (gateway rt t a)"
  by (cases t)
    (simp_all add: gateway_def get_daily_interbank_rate_def get_monthly_interbank_rate_def
      get_quarterly_interbank_rate_def get_annual_interbank_rate_def get_daily_exchange_rate_def
      get_monthly_exchange_rate_def get_quarterly_exchange_rate_def get_annual_exchange_rate_def)

lemma gateway_cases:
  obtains b e ps where "gateway rt t a = makeApiRequest rt b e ps" "call_spec t a = (b, e, ps)"
  by (cases "call_spec t a") (simp add: gateway_def)

lemma makeApiRequest_no_key:
  "process_env rt ''BOT_API_KEY'' = None \<Longrightarrow>
   makeApiRequest rt b e ps = (Rejected 0 credential_error, [])"
  by (simp add: makeApiRequest_def)

lemma makeApiRequest_empty_key:
  "process_env rt ''BOT_API_KEY'' = Some [] \<Longrightarrow>
   makeApiRequest rt b e ps = (Rejected 0 credential_error, [])"
  by (simp add: makeApiRequest_def)

lemma makeApiRequest_issued:
  "process_env rt ''BOT_API_KEY'' = Some k \<Longrightarrow> k \<noteq> [] \<Longrightarrow>
   issued (snd (makeApiRequest rt b e ps)) = [fetch_request k (build_url b e ps)]"
  by (simp add: makeApiRequest_def Let_def timer_fires_def split: fetch_behaviour.splits)

lemma makeApiRequest_issued_cases:
  "issued (snd (makeApiRequest rt b e ps)) = [] \<or>
   (\<exists>k. process_env rt ''BOT_API_KEY'' = Some k \<and> k \<noteq> [] \<and>
        issued (snd (makeApiRequest rt b e ps)) = [fetch_request k (build_url b e ps)])"
proof (cases "process_env rt ''BOT_API_KEY''")
  case None
  then show ?thesis by (simp add: makeApiRequest_no_key)
next
  case (Some k)
  then show ?thesis
    by (cases "k = []") (simp_all add: makeApiRequest_empty_key makeApiRequest_issued)
qed

lemma fold_append_params:
  "fold (\<lambda>(key, v) u. if v \<noteq> [] then searchParams_append u key v else u) ps u0
   = u0\<lparr>searchParams := searchParams u0 @ filter (\<lambda>(key, v). v \<noteq> []) ps\<rparr>"
  by (induction ps arbitrary: u0) (auto simp: searchParams_append_def)

lemma build_url_eq:
  "build_url b e ps = \<lparr>href = b @ e, searchParams = filter (\<lambda>(key, v). v \<noteq> []) ps\<rparr>"
  by (simp add: build_url_def fold_append_params new_URL_def)

lemma snd_respond: "snd (respond rt res) = snd res"
  by (simp add: respond_def)

lemma fst_respond_Rejected:
  "fst res = Rejected t e \<Longrightarrow>
   fst (respond rt res) =
     Fulfilled t \<lparr>content = [\<lparr>ctype = ''text'', ctext = ''Error: '' @ failure_message e\<rparr>],
                  isError = Some True\<rparr>"
  by (simp add: respond_def)

lemma fst_respond_Fulfilled:
  "fst res = Fulfilled t v \<Longrightarrow>
   fst (respond rt res) =
     Fulfilled t \<lparr>content = [\<lparr>ctype = ''text'', ctext = formatResponse rt v\<rparr>],
                  isError = None\<rparr>"
  by (simp add: respond_def)

lemma fst_respond_Never: "fst res = Never \<Longrightarrow> fst (respond rt res) = Never"
  by (simp add: respond_def)

lemma status_error_not_abort: "catch_clause (status_error r) = status_error r"
  by (simp add: catch_clause_def status_error_def)

lemma makeApiRequest_status:
  assumes "process_env rt ''BOT_API_KEY'' = Some k" "k \<noteq> []"
    and "fetch rt (fetch_request k (build_url b e ps)) = Headers t r"
    and "t < REQUEST_TIMEOUT_MS" "\<not> response_ok r"
  shows "makeApiRequest rt b e ps =
     (Rejected t (status_error r),
      [SetTimeout REQUEST_TIMEOUT_MS, Fetch (fetch_request k (build_url b e ps)), ClearTimeout t])"
  using assms by (simp add: makeApiRequest_def Let_def status_error_not_abort)

lemma handler_no_key:
  "process_env rt ''BOT_API_KEY'' = None \<Longrightarrow>
   handler t rt a = (Fulfilled 0 credential_error_envelope, [])"
  apply (rule gateway_cases [of rt t a])
  apply (simp add: handler_gateway makeApiRequest_no_key respond_def credential_error_def
      failure_message_def credential_error_envelope_def)
  done

lemma handler_empty_key:
  "process_env rt ''BOT_API_KEY'' = Some [] \<Longrightarrow>
   handler t rt a = (Fulfilled 0 credential_error_envelope, [])"
  apply (rule gateway_cases [of rt t a])
  apply (simp add: handler_gateway makeApiRequest_empty_key respond_def credential_error_def
      failure_message_def credential_error_envelope_def)
  done

lemma handler_issued:
  "process_env rt ''BOT_API_KEY'' = Some k \<Longrightarrow> k \<noteq> [] \<Longrightarrow>
   map req_headers (issued (snd (handler t rt a))) =
     [[(''Authorization'', k), (''Accept'', ''application/json'')]]"
  apply (rule gateway_cases [of rt t a])
  apply (simp add: handler_gateway snd_respond makeApiRequest_issued fetch_request_def)
  done

lemmas urlencode_simps = url_toString_def urlencode_def urlencode_byte_def urlencode_keep_def

lemmas example_runtime_simps = upstream_runtime_def no_credential_runtime_def
  silent_runtime_def not_found_runtime_def slow_body_runtime_def rate_runtime_def
  overflow_runtime_def

lemma example_args_valid:
  "input_schema Daily_interbank example_args"
  "input_schema Daily_exchange example_args"
  "input_schema Daily_exchange (example_args\<lparr>currency := Some ''USD''\<rparr>)"
  by (simp_all add: example_args_def daily_refines daily_grammar_def is_digit_def
      currencySchema_def SUPPORTED_CURRENCIES_def)

lemma show_nat_404: "show_nat 404 = ''404''"
  by (simp add: show_nat.simps digit_char_def)

lemma example_request_eq:
  "fetch_request ''key'' (build_url REFERENCE_RATE_BASE_URL ''/DAILY_REF_RATE/''
     [(''start_period'', ''2024-01-01''), (''end_period'', ''2024-01-31'')]) = example_request"
  by (simp add: fetch_request_def build_url_eq urlencode_simps example_request_def
      REFERENCE_RATE_BASE_URL_def)

section \<open>Missing credential\<close>

text \<open>
  Claim C1. While \<open>BOT_API_KEY\<close> is not in the environment, every handler returns at once
  the error envelope whose text holds \<open>BOT_API_KEY environment variable is not set\<close>,
  with \<open>isError\<close> true, and its trace is empty: no network call is issued. The environment
  is read by each call: when the key is set after such a call, the next call issues a
  request that carries the key in its \<open>Authorization\<close> header.
\<close>

theorem missing_credential:
  assumes "process_env rt ''BOT_API_KEY'' = None"
  shows "handler t rt a = (Fulfilled 0 credential_error_envelope, []) \<and>
         isError credential_error_envelope = Some True \<and>
         sublist ''BOT_API_KEY environment variable is not set''
           (ctext (hd (content credential_error_envelope))) \<and>
         issued (snd (handler t rt a)) = [] \<and>
         (k \<noteq> [] \<longrightarrow>
            (\<exists>res. run rt [CallTool t a, SetEnv ''BOT_API_KEY'' k, CallTool t' a'] =
                     [(Fulfilled 0 credential_error_envelope, []), res] \<and>
                   map req_headers (issued (snd res)) =
                     [[(''Authorization'', k), (''Accept'', ''application/json'')]]))"
proof -
  have first: "handler t rt a = (Fulfilled 0 credential_error_envelope, [])"
    using assms by (rule handler_no_key)
  have "sublist ''BOT_API_KEY environment variable is not set''
     (''Error: '' @ ''BOT_API_KEY environment variable is not set'' @
      ''. Please set it with your Bank of Thailand API key.'')"
    by (rule sublist_appendI)
  then have contains: "sublist ''BOT_API_KEY environment variable is not set''
           (ctext (hd (content credential_error_envelope)))"
    by (simp add: credential_error_envelope_def)
  have next_call: "map req_headers (issued (snd (handler t'
        (rt\<lparr>process_env := (process_env rt)(''BOT_API_KEY'' \<mapsto> k)\<rparr>) a'))) =
      [[(''Authorization'', k), (''Accept'', ''application/json'')]]" if "k \<noteq> []"
    using that by (intro handler_issued) simp_all
  show ?thesis
    using first contains next_call by (simp add: credential_error_envelope_def)
qed

theorem missing_credential_witness:
  "process_env no_credential_runtime ''BOT_API_KEY'' = None \<and>
   handler Daily_exchange no_credential_runtime example_args =
     (Fulfilled 0 credential_error_envelope, []) \<and>
   (\<exists>res. run no_credential_runtime
            [CallTool Daily_exchange example_args, SetEnv ''BOT_API_KEY'' ''key'',
             CallTool Daily_interbank example_args] =
          [(Fulfilled 0 credential_error_envelope, []), res] \<and>
          map req_headers (issued (snd res)) =
            [[(''Authorization'', ''key''), (''Accept'', ''application/json'')]])"
proof -
  have h: "process_env no_credential_runtime ''BOT_API_KEY'' = None"
    by (simp add: example_runtime_simps)
  show ?thesis
    using h missing_credential [OF h, of Daily_exchange example_args "''key''" Daily_interbank
        example_args]
    by simp
qed

section \<open>Status failures\<close>

text \<open>
  Claim C3. When the upstream answers the request of a call with a status outside 200-299
  (before the deadline), the gateway fails with the message \<open>API request failed with
  status\<close> followed by the status in decimal, and the handler returns the error envelope
  with that message. Nothing of the response body enters: replacing the body by any other
  leaves the result as it is. For status 404 the text holds \<open>404\<close>.
\<close>

theorem status_failure_hides_body:
  assumes "issued (snd (handler tool rt a)) = [req]"
    and "fetch rt req = Headers t r"
    and "t < REQUEST_TIMEOUT_MS"
    and "\<not> response_ok r"
  shows "fst (gateway rt tool a) =
           Rejected t
             (ErrorObj ''Error'' (''API request failed with status '' @ show_nat (status r))) \<and>
         fst (handler tool rt a) =
           Fulfilled t
             \<lparr>content = [\<lparr>ctype = ''text'',
                ctext = ''Error: API request failed with status '' @ show_nat (status r)\<rparr>],
              isError = Some True\<rparr> \<and>
         fst (handler tool
                (rt\<lparr>fetch := (fetch rt)(req := Headers t (r\<lparr>body := b', body_delay := d'\<rparr>))\<rparr>) a) =
           fst (handler tool rt a) \<and>
         (status r = 404 \<longrightarrow>
            fst (handler tool rt a) =
              Fulfilled t
                \<lparr>content = [\<lparr>ctype = ''text'',
                   ctext = ''Error: API request failed with status 404''\<rparr>],
                 isError = Some True\<rparr> \<and>
            sublist ''404'' ''Error: API request failed with status 404'')"
proof -
  obtain b e ps where cs: "call_spec tool a = (b, e, ps)"
    by (cases "call_spec tool a")
  have gw: "gateway rt' tool a = makeApiRequest rt' b e ps" for rt' :: "'a runtime"
    by (simp add: gateway_def cs)
  from assms(1) have iss: "issued (snd (makeApiRequest rt b e ps)) = [req]"
    by (simp add: handler_gateway snd_respond gw)
  with makeApiRequest_issued_cases [of rt b e ps]
  obtain k where k: "process_env rt ''BOT_API_KEY'' = Some k" "k \<noteq> []"
    and req: "req = fetch_request k (build_url b e ps)"
    by auto
  have res: "makeApiRequest rt b e ps =
     (Rejected t (status_error r), [SetTimeout REQUEST_TIMEOUT_MS, Fetch req, ClearTimeout t])"
    using k assms(2-4) unfolding req by (rule makeApiRequest_status)
  let ?rt' = "rt\<lparr>fetch := (fetch rt)(req := Headers t (r\<lparr>body := b', body_delay := d'\<rparr>))\<rparr>"
  have "makeApiRequest ?rt' b e ps =
     (Rejected t (status_error (r\<lparr>body := b', body_delay := d'\<rparr>)),
      [SetTimeout REQUEST_TIMEOUT_MS, Fetch (fetch_request k (build_url b e ps)), ClearTimeout t])"
    using k assms(3,4) by (intro makeApiRequest_status) (simp_all add: req response_ok_def)
  then have res': "fst (makeApiRequest ?rt' b e ps) = Rejected t (status_error r)"
    by (simp add: status_error_def)
  have sub: "sublist ''404'' (''Error: API request failed with status '' @ ''404'')"
    by (rule sublist_append_leftI)
  show ?thesis
    using res res' sub
    by (simp add: handler_gateway gw respond_def status_error_def failure_message_def
        show_nat_404)
qed

theorem status_failure_hides_body_witness:
  "issued (snd (handler Daily_interbank not_found_runtime example_args)) = [example_request] \<and>
   fetch not_found_runtime example_request = Headers 120 not_found_response \<and>
   120 < REQUEST_TIMEOUT_MS \<and>
   \<not> response_ok not_found_response \<and>
   status not_found_response = 404 \<and>
   fst (handler Daily_interbank not_found_runtime example_args) =
     Fulfilled 120
       \<lparr>content = [\<lparr>ctype = ''text'', ctext = ''Error: API request failed with status 404''\<rparr>],
        isError = Some True\<rparr>"
proof -
  have h1: "issued (snd (handler Daily_interbank not_found_runtime example_args)) =
      [example_request]"
    by (simp add: get_daily_interbank_rate_def snd_respond makeApiRequest_issued
        example_runtime_simps example_args_def example_request_eq)
  have h2: "fetch not_found_runtime example_request = Headers 120 not_found_response"
    by (simp add: example_runtime_simps)
  have h3: "120 < REQUEST_TIMEOUT_MS"
    by (simp add: REQUEST_TIMEOUT_MS_def)
  have h4: "\<not> response_ok not_found_response"
    by (simp add: response_ok_def not_found_response_def)
  have h5: "status not_found_response = 404"
    by (simp add: not_found_response_def)
  from status_failure_hides_body [OF h1 h2 h3 h4, where ?b' = "[]" and ?d' = None] h5
  have "fst (handler Daily_interbank not_found_runtime example_args) =
     Fulfilled 120
       \<lparr>content = [\<lparr>ctype = ''text'', ctext = ''Error: API request failed with status 404''\<rparr>],
        isError = Some True\<rparr>"
    by blast
  with h1 h2 h3 h4 h5 show ?thesis
    by blast
qed

section \<open>The request a handler issues\<close>

text \<open>
  Claim C4. With a credential configured, \<open>get_daily_interbank_rate\<close> called with
  \<open>start_period = 2024-01-01\<close> and \<open>end_period = 2024-01-31\<close> issues exactly one request,
  a GET to the reference-rate base URL followed by \<open>/DAILY_REF_RATE/\<close>, whose query holds
  the two parameters \<open>start_period\<close> and \<open>end_period\<close> with those values and nothing
  else. The arguments pass the tool's input schema.
\<close>

theorem daily_interbank_example_request:
  assumes "process_env rt ''BOT_API_KEY'' = Some k" and "k \<noteq> []"
  shows "issued (snd (get_daily_interbank_rate rt example_args)) =
           [\<lparr>req_url = REFERENCE_RATE_BASE_URL @ ''/DAILY_REF_RATE/'' @
                       ''?start_period=2024-01-01&end_period=2024-01-31'',
             req_method = ''GET'',
             req_headers = [(''Authorization'', k), (''Accept'', ''application/json'')]\<rparr>] \<and>
         searchParams (build_url REFERENCE_RATE_BASE_URL ''/DAILY_REF_RATE/''
             [(''start_period'', start_period example_args),
              (''end_period'', end_period example_args)]) =
           [(''start_period'', ''2024-01-01''), (''end_period'', ''2024-01-31'')] \<and>
         input_schema Daily_interbank example_args"
proof -
  have "issued (snd (get_daily_interbank_rate rt example_args)) =
          [fetch_request k (build_url REFERENCE_RATE_BASE_URL ''/DAILY_REF_RATE/''
             [(''start_period'', start_period example_args),
              (''end_period'', end_period example_args)])]"
    using assms by (simp add: get_daily_interbank_rate_def snd_respond makeApiRequest_issued)
  then show ?thesis
    using example_args_valid(1)
    by (simp add: fetch_request_def build_url_eq urlencode_simps example_args_def)
qed

theorem daily_interbank_example_request_witness:
  "process_env not_found_runtime ''BOT_API_KEY'' = Some ''key'' \<and> ''key'' \<noteq> [] \<and>
   issued (snd (get_daily_interbank_rate not_found_runtime example_args)) = [example_request]"
proof -
  have h1: "process_env not_found_runtime ''BOT_API_KEY'' = Some ''key''"
    by (simp add: example_runtime_simps)
  have h2: "''key'' \<noteq> []"
    by simp
  show ?thesis
    using h1 daily_interbank_example_request [OF h1 h2]
    by (simp add: example_request_def REFERENCE_RATE_BASE_URL_def)
qed

text \<open>
  Claim C5. The query of the URL the gateway builds holds exactly the entries of the
  parameter mapping whose value is not the empty string, so no parameter is sent empty.
  \<open>get_daily_exchange_rate\<close> passes the empty string for a missing currency: without a
  currency the request has no \<open>currency\<close> parameter, and with the currency \<open>USD\<close> it
  ends in \<open>currency=USD\<close>.
\<close>

theorem empty_parameters_omitted:
  assumes "process_env rt ''BOT_API_KEY'' = Some k" and "k \<noteq> []"
  shows "searchParams (build_url b e ps) = filter (\<lambda>(key, v). v \<noteq> []) ps \<and>
         list_all (\<lambda>(key, v). v \<noteq> []) (searchParams (build_url b e ps)) \<and>
         issued (snd (get_daily_exchange_rate rt a)) =
           [fetch_request k
              \<lparr>href = EXCHANGE_RATE_BASE_URL @ ''/DAILY_AVG_EXG_RATE/'',
               searchParams = filter (\<lambda>(key, v). v \<noteq> [])
                 [(''start_period'', start_period a), (''end_period'', end_period a),
                  (''currency'', or_empty (currency a))]\<rparr>] \<and>
         map req_url (issued (snd (get_daily_exchange_rate rt example_args))) =
           [EXCHANGE_RATE_BASE_URL @ ''/DAILY_AVG_EXG_RATE/'' @
            ''?start_period=2024-01-01&end_period=2024-01-31''] \<and>
         map req_url (issued (snd (get_daily_exchange_rate rt
             (example_args\<lparr>currency := Some ''USD''\<rparr>)))) =
           [EXCHANGE_RATE_BASE_URL @ ''/DAILY_AVG_EXG_RATE/'' @
            ''?start_period=2024-01-01&end_period=2024-01-31&currency=USD'']"
proof -
  have 1: "searchParams (build_url b e ps) = filter (\<lambda>(key, v). v \<noteq> []) ps"
    by (simp add: build_url_eq)
  have 2: "list_all (\<lambda>(key, v). v \<noteq> []) (searchParams (build_url b e ps))"
    unfolding 1 by (simp add: list_all_iff)
  have 3: "issued (snd (get_daily_exchange_rate rt a')) =
           [fetch_request k
              \<lparr>href = EXCHANGE_RATE_BASE_URL @ ''/DAILY_AVG_EXG_RATE/'',
               searchParams = filter (\<lambda>(key, v). v \<noteq> [])
                 [(''start_period'', start_period a'), (''end_period'', end_period a'),
                  (''currency'', or_empty (currency a'))]\<rparr>]" for a'
    using assms
    by (simp add: get_daily_exchange_rate_def snd_respond makeApiRequest_issued build_url_eq)
  have 4: "map req_url (issued (snd (get_daily_exchange_rate rt example_args))) =
           [EXCHANGE_RATE_BASE_URL @ ''/DAILY_AVG_EXG_RATE/'' @
            ''?start_period=2024-01-01&end_period=2024-01-31'']"
    unfolding 3 by (simp add: fetch_request_def urlencode_simps example_args_def or_empty_def)
  have 5: "map req_url (issued (snd (get_daily_exchange_rate rt
             (example_args\<lparr>currency := Some ''USD''\<rparr>)))) =
           [EXCHANGE_RATE_BASE_URL @ ''/DAILY_AVG_EXG_RATE/'' @
            ''?start_period=2024-01-01&end_period=2024-01-31&currency=USD'']"
    unfolding 3 by (simp add: fetch_request_def urlencode_simps example_args_def or_empty_def)
  show ?thesis
    using 1 2 3 4 5 by blast
qed

theorem empty_parameters_omitted_witness:
  "process_env slow_body_runtime ''BOT_API_KEY'' = Some ''key'' \<and> ''key'' \<noteq> [] \<and>
   searchParams (build_url EXCHANGE_RATE_BASE_URL ''/DAILY_AVG_EXG_RATE/''
       [(''start_period'', ''2024-01-01''), (''end_period'', []), (''currency'', [])]) =
     [(''start_period'', ''2024-01-01'')] \<and>
   map req_url (issued (snd (get_daily_exchange_rate slow_body_runtime example_args))) =
     [''https://gateway.api.bot.or.th/Stat-ExchangeRate/v2/DAILY_AVG_EXG_RATE/?start_period=2024-01-01&end_period=2024-01-31''] \<and>
   map req_url (issued (snd (get_daily_exchange_rate slow_body_runtime
       (example_args\<lparr>currency := Some ''USD''\<rparr>)))) =
     [''https://gateway.api.bot.or.th/Stat-ExchangeRate/v2/DAILY_AVG_EXG_RATE/?start_period=2024-01-01&end_period=2024-01-31&currency=USD'']"
proof -
  have h1: "process_env slow_body_runtime ''BOT_API_KEY'' = Some ''key''"
    by (simp add: example_runtime_simps)
  have h2: "''key'' \<noteq> []"
    by simp
  note inst = empty_parameters_omitted [OF h1 h2, of EXCHANGE_RATE_BASE_URL
      "''/DAILY_AVG_EXG_RATE/''"
      "[(''start_period'', ''2024-01-01''), (''end_period'', []), (''currency'', [])]"
      example_args]
  have a: "searchParams (build_url EXCHANGE_RATE_BASE_URL ''/DAILY_AVG_EXG_RATE/''
       [(''start_period'', ''2024-01-01''), (''end_period'', []), (''currency'', [])]) =
     [(''start_period'', ''2024-01-01'')]"
    using inst [THEN conjunct1] by simp
  have b: "map req_url (issued (snd (get_daily_exchange_rate slow_body_runtime example_args))) =
     [''https://gateway.api.bot.or.th/Stat-ExchangeRate/v2/DAILY_AVG_EXG_RATE/?start_period=2024-01-01&end_period=2024-01-31'']"
    using inst [THEN conjunct2, THEN conjunct2, THEN conjunct2, THEN conjunct1]
    by (simp add: EXCHANGE_RATE_BASE_URL_def)
  have c: "map req_url (issued (snd (get_daily_exchange_rate slow_body_runtime
       (example_args\<lparr>currency := Some ''USD''\<rparr>)))) =
     [''https://gateway.api.bot.or.th/Stat-ExchangeRate/v2/DAILY_AVG_EXG_RATE/?start_period=2024-01-01&end_period=2024-01-31&currency=USD'']"
    using inst [THEN conjunct2, THEN conjunct2, THEN conjunct2, THEN conjunct2]
    by (simp add: EXCHANGE_RATE_BASE_URL_def)
  from h1 h2 a b c show ?thesis
    by blast
qed

section \<open>The currency catalogue\<close>

lemma gap_two: "replicate 2 c = [c, c]"
  by (simp add: numeral_2_eq_2)

lemma currencyInfo_eq:
  "currencyInfo =
     [(''USD'', ''United States Dollar''),
      (''GBP'', ''British Pound Sterling''),
      (''EUR'', ''Euro''),
      (''JPY'', ''Japanese Yen''),
      (''CNY'', ''Chinese Yuan Renminbi''),
      (''HKD'', ''Hong Kong Dollar''),
      (''SGD'', ''Singapore Dollar''),
      (''MYR'', ''Malaysian Ringgit''),
      (''TWD'', ''Taiwan Dollar''),
      (''KRW'', ''South Korean Won''),
      (''IDR'', ''Indonesian Rupiah''),
      (''INR'', ''Indian Rupee''),
      (''AUD'', ''Australian Dollar''),
      (''NZD'', ''New Zealand Dollar''),
      (''CHF'', ''Swiss Franc''),
      (''DKK'', ''Danish Krone''),
      (''NOK'', ''Norwegian Krone''),
      (''SEK'', ''Swedish Krona''),
      (''AED'', ''UAE Dirham''),
      (''PKR'', ''Pakistani Rupee'')]"
  by (simp add: currencyInfo_def SUPPORTED_CURRENCIES_def getCurrencyDescription_def
      descriptions_def)

text \<open>
  Claim C9. The document of \<open>bot://currencies\<close> is the serialisation, with indentation 2,
  of an array of twenty objects, each with the two members \<open>code\<close> and \<open>description\<close>:
  one object for each code of the fixed set, in its order, with the description the table
  holds for the code, which is not empty. A code that the table does not hold (and that is
  not a name every object inherits) is described by itself. The document depends on the
  constant tables only: the environment, the network and the parser play no part, and
  there is no failure.
\<close>

theorem currencies_resource:
  "supported_currencies rt =
     [\<lparr>uri = ''bot://currencies'', mimeType = ''application/json'',
       res_text = JSON_stringify rt
         (JArray
           [JObject [(''code'', JString ''USD''), (''description'', JString ''United States Dollar'')],
            JObject [(''code'', JString ''GBP''), (''description'', JString ''British Pound Sterling'')],
            JObject [(''code'', JString ''EUR''), (''description'', JString ''Euro'')],
            JObject [(''code'', JString ''JPY''), (''description'', JString ''Japanese Yen'')],
            JObject [(''code'', JString ''CNY''), (''description'', JString ''Chinese Yuan Renminbi'')],
            JObject [(''code'', JString ''HKD''), (''description'', JString ''Hong Kong Dollar'')],
            JObject [(''code'', JString ''SGD''), (''description'', JString ''Singapore Dollar'')],
            JObject [(''code'', JString ''MYR''), (''description'', JString ''Malaysian Ringgit'')],
            JObject [(''code'', JString ''TWD''), (''description'', JString ''Taiwan Dollar'')],
            JObject [(''code'', JString ''KRW''), (''description'', JString ''South Korean Won'')],
            JObject [(''code'', JString ''IDR''), (''description'', JString ''Indonesian Rupiah'')],
            JObject [(''code'', JString ''INR''), (''description'', JString ''Indian Rupee'')],
            JObject [(''code'', JString ''AUD''), (''description'', JString ''Australian Dollar'')],
            JObject [(''code'', JString ''NZD''), (''description'', JString ''New Zealand Dollar'')],
            JObject [(''code'', JString ''CHF''), (''description'', JString ''Swiss Franc'')],
            JObject [(''code'', JString ''DKK''), (''description'', JString ''Danish Krone'')],
            JObject [(''code'', JString ''NOK''), (''description'', JString ''Norwegian Krone'')],
            JObject [(''code'', JString ''SEK''), (''description'', JString ''Swedish Krona'')],
            JObject [(''code'', JString ''AED''), (''description'', JString ''UAE Dirham'')],
            JObject [(''code'', JString ''PKR''), (''description'', JString ''Pakistani Rupee'')]])
         2\<rparr>] \<and>
   length currencyInfo = 20 \<and>
   map fst currencyInfo = SUPPORTED_CURRENCIES \<and>
   list_all (\<lambda>e. snd e \<noteq> [] \<and> map_of descriptions (fst e) = Some (snd e)) currencyInfo \<and>
   supported_currencies (rt\<lparr>process_env := env, fetch := f, JSON_parse := p\<rparr>) =
     supported_currencies rt \<and>
   (code \<notin> set inherited_names \<longrightarrow> map_of descriptions code = None \<longrightarrow>
      getCurrencyDescription code = code)"
proof -
  have "list_all (\<lambda>e. snd e \<noteq> [] \<and> map_of descriptions (fst e) = Some (snd e)) currencyInfo"
    by (simp add: currencyInfo_eq descriptions_def)
  moreover have "map fst currencyInfo = SUPPORTED_CURRENCIES"
    by (simp add: currencyInfo_def comp_def)
  moreover have "length currencyInfo = 20"
    by (simp add: currencyInfo_eq)
  ultimately show ?thesis
    by (simp add: supported_currencies_def getCurrencyDescription_def)
      (simp add: currencyInfo_eq entry_json_def)
qed

theorem currencies_resource_witness:
  "''XXX'' \<notin> set inherited_names \<and> map_of descriptions ''XXX'' = None \<and>
   getCurrencyDescription ''XXX'' = ''XXX'' \<and>
   length (supported_currencies no_credential_runtime) = 1 \<and>
   prefix
     (''['' @ [CHR 0x0A] @
      ''  {'' @ [CHR 0x0A] @
      ''    \"code\": \"USD\",'' @ [CHR 0x0A] @
      ''    \"description\": \"United States Dollar\"'' @ [CHR 0x0A] @
      ''  },'' @ [CHR 0x0A] @
      ''  {'' @ [CHR 0x0A] @
      ''    \"code\": \"GBP\",'' @ [CHR 0x0A])
     (res_text (hd (supported_currencies no_credential_runtime))) \<and>
   suffix
     (''  {'' @ [CHR 0x0A] @
      ''    \"code\": \"PKR\",'' @ [CHR 0x0A] @
      ''    \"description\": \"Pakistani Rupee\"'' @ [CHR 0x0A] @
      ''  }'' @ [CHR 0x0A] @
      '']'')
     (res_text (hd (supported_currencies no_credential_runtime)))"
proof -
  have h1: "''XXX'' \<notin> set inherited_names"
    by (simp add: inherited_names_def)
  have h2: "map_of descriptions ''XXX'' = None"
    by (simp add: descriptions_def)
  note inst = currencies_resource [where rt = no_credential_runtime and code = "''XXX''"]
  have h3: "getCurrencyDescription ''XXX'' = ''XXX''"
    using inst h1 h2 by blast
  have doc: "length (supported_currencies no_credential_runtime) = 1"
    by (simp add: inst [THEN conjunct1])
  have start: "prefix
     (''['' @ [CHR 0x0A] @
      ''  {'' @ [CHR 0x0A] @
      ''    \"code\": \"USD\",'' @ [CHR 0x0A] @
      ''    \"description\": \"United States Dollar\"'' @ [CHR 0x0A] @
      ''  },'' @ [CHR 0x0A] @
      ''  {'' @ [CHR 0x0A] @
      ''    \"code\": \"GBP\",'' @ [CHR 0x0A])
     (res_text (hd (supported_currencies no_credential_runtime)))"
    by code_simp
  have finish: "suffix
     (''  {'' @ [CHR 0x0A] @
      ''    \"code\": \"PKR\",'' @ [CHR 0x0A] @
      ''    \"description\": \"Pakistani Rupee\"'' @ [CHR 0x0A] @
      ''  }'' @ [CHR 0x0A] @
      '']'')
     (res_text (hd (supported_currencies no_credential_runtime)))"
    by code_simp
  from h1 h2 h3 doc start finish show ?thesis
    by blast
qed

section \<open>The paths of the gateway\<close>

lemma timed_out:
  "catch_clause (ErrorObj ''AbortError'' m) = ErrorObj ''Error'' ''API request timed out''"
  by (simp add: catch_clause_def)

text \<open>
  When the fetch itself has not settled before the deadline, the timer fires at the
  deadline, the request is aborted, the gateway fails with the timeout message and the
  timer is cleared.
\<close>

lemma deadline_on_pending_fetch:
  assumes "process_env rt ''BOT_API_KEY'' = Some k" and "k \<noteq> []"
    and "case fetch rt (fetch_request k (build_url b e ps)) of
           Headers t r \<Rightarrow> REQUEST_TIMEOUT_MS \<le> t
         | FetchFails t err \<Rightarrow> REQUEST_TIMEOUT_MS \<le> t
         | NoResponse \<Rightarrow> True"
  shows "makeApiRequest rt b e ps =
     (Rejected REQUEST_TIMEOUT_MS (ErrorObj ''Error'' ''API request timed out''),
      [SetTimeout REQUEST_TIMEOUT_MS, Fetch (fetch_request k (build_url b e ps)),
       Abort REQUEST_TIMEOUT_MS, ClearTimeout REQUEST_TIMEOUT_MS])"
  using assms
  by (simp add: makeApiRequest_def Let_def timer_fires_def timed_out
      split: fetch_behaviour.splits)

text \<open>Once the timer is armed, every path of the call ends by clearing it.\<close>

lemma timer_cleared_on_every_path:
  assumes "process_env rt ''BOT_API_KEY'' = Some k" and "k \<noteq> []"
  shows "\<exists>t. last (snd (makeApiRequest rt b e ps)) = ClearTimeout t \<and>
             hd (snd (makeApiRequest rt b e ps)) = SetTimeout REQUEST_TIMEOUT_MS"
  using assms
  by (simp add: makeApiRequest_def Let_def timer_fires_def split: fetch_behaviour.splits)

text \<open>
  When the headers of a successful response arrive before the deadline, the timer is
  cleared at that moment and the result is whatever the reading of the body gives,
  whenever it gives it.
\<close>

lemma body_not_covered:
  assumes "process_env rt ''BOT_API_KEY'' = Some k" and "k \<noteq> []"
    and "fetch rt (fetch_request k (build_url b e ps)) = Headers t r"
    and "t < REQUEST_TIMEOUT_MS" and "response_ok r"
  shows "makeApiRequest rt b e ps =
     (response_json rt t r,
      [SetTimeout REQUEST_TIMEOUT_MS, Fetch (fetch_request k (build_url b e ps)), ClearTimeout t])"
  using assms by (simp add: makeApiRequest_def Let_def)

lemma stringify_rate: "stringify number_text rate_payload 2 = rate_text"
  by (simp add: stringify_def rate_payload_def rate_text_def gap_two QuoteJSONString_def
      quote_char_def number_text_def show_nat.simps digit_char_def)


lemma gateway_rate:
  "fst (gateway rate_runtime Daily_interbank example_args) = Fulfilled 120 rate_payload"
proof -
  have "makeApiRequest rate_runtime REFERENCE_RATE_BASE_URL ''/DAILY_REF_RATE/''
      [(''start_period'', ''2024-01-01''), (''end_period'', ''2024-01-31'')] =
     (response_json rate_runtime 100 rate_response,
      [SetTimeout REQUEST_TIMEOUT_MS,
       Fetch (fetch_request ''key'' (build_url REFERENCE_RATE_BASE_URL ''/DAILY_REF_RATE/''
         [(''start_period'', ''2024-01-01''), (''end_period'', ''2024-01-31'')])),
       ClearTimeout 100])"
    by (rule body_not_covered)
      (simp_all add: example_runtime_simps REQUEST_TIMEOUT_MS_def response_ok_def
        rate_response_def)
  moreover have "response_json rate_runtime 100 rate_response = Fulfilled 120 rate_payload"
    by (simp add: response_json_def example_runtime_simps rate_response_def example_parse_def
        parse_table_def rate_body_def)
  ultimately show ?thesis
    by (simp add: gateway_def example_args_def)
qed

lemma gateway_not_found:
  "fst (gateway not_found_runtime Daily_interbank example_args) =
     Rejected 120 (ErrorObj ''Error'' ''API request failed with status 404'')"
proof -
  have "makeApiRequest not_found_runtime REFERENCE_RATE_BASE_URL ''/DAILY_REF_RATE/''
      [(''start_period'', ''2024-01-01''), (''end_period'', ''2024-01-31'')] =
     (Rejected 120 (status_error not_found_response),
      [SetTimeout REQUEST_TIMEOUT_MS,
       Fetch (fetch_request ''key'' (build_url REFERENCE_RATE_BASE_URL ''/DAILY_REF_RATE/''
         [(''start_period'', ''2024-01-01''), (''end_period'', ''2024-01-31'')])),
       ClearTimeout 120])"
    by (rule makeApiRequest_status)
      (simp_all add: example_runtime_simps REQUEST_TIMEOUT_MS_def response_ok_def
        not_found_response_def)
  then show ?thesis
    by (simp add: gateway_def example_args_def status_error_def not_found_response_def
        show_nat_404)
qed

lemma gateway_silent:
  "fst (gateway silent_runtime Quarterly_exchange example_args) =
     Rejected 30000 (ErrorObj ''Error'' ''API request timed out'')"
proof -
  have "makeApiRequest silent_runtime b e ps =
     (Rejected REQUEST_TIMEOUT_MS (ErrorObj ''Error'' ''API request timed out''),
      [SetTimeout REQUEST_TIMEOUT_MS, Fetch (fetch_request ''key'' (build_url b e ps)),
       Abort REQUEST_TIMEOUT_MS, ClearTimeout REQUEST_TIMEOUT_MS])" for b e ps
    by (rule deadline_on_pending_fetch) (simp_all add: example_runtime_simps)
  then show ?thesis
    by (simp add: gateway_def REQUEST_TIMEOUT_MS_def)
qed

section \<open>The response envelope\<close>

text \<open>
  Claim C10. For each of the eight handlers: when the gateway call succeeds with a value,
  the handler returns an envelope whose content is one item of type \<open>text\<close> holding the
  value serialised with indentation 2, with no \<open>isError\<close> flag; when the gateway call
  fails with an error object, the envelope's content is one item of type \<open>text\<close> holding
  \<open>Error: \<close> followed by the message of the error, with \<open>isError\<close> true, and when
  something that is no error object is thrown, \<open>Error: \<close> followed by its rendering as a
  string. So every envelope a handler returns has exactly one content item, of type
  \<open>text\<close>, and a handler never fails itself.
\<close>

theorem envelope_shape:
  "(case fst (gateway rt tool a) of
      Fulfilled t v \<Rightarrow>
        fst (handler tool rt a) =
          Fulfilled t \<lparr>content = [\<lparr>ctype = ''text'', ctext = JSON_stringify rt v 2\<rparr>],
                       isError = None\<rparr>
    | Rejected t (ErrorObj name msg) \<Rightarrow>
        fst (handler tool rt a) =
          Fulfilled t \<lparr>content = [\<lparr>ctype = ''text'', ctext = ''Error: '' @ msg\<rparr>],
                       isError = Some True\<rparr>
    | Rejected t (NonError rendered) \<Rightarrow>
        fst (handler tool rt a) =
          Fulfilled t \<lparr>content = [\<lparr>ctype = ''text'', ctext = ''Error: '' @ rendered\<rparr>],
                       isError = Some True\<rparr>
    | Never \<Rightarrow> fst (handler tool rt a) = Never) \<and>
   (\<forall>t env. fst (handler tool rt a) = Fulfilled t env \<longrightarrow>
      length (content env) = 1 \<and> ctype (hd (content env)) = ''text'' \<and>
      (isError env = None \<or> isError env = Some True)) \<and>
   (\<forall>t err. fst (handler tool rt a) \<noteq> Rejected t err)"
proof (cases "fst (gateway rt tool a)")
  case (Fulfilled t v)
  then show ?thesis
    by (simp add: handler_gateway respond_def formatResponse_def)
next
  case (Rejected t err)
  then show ?thesis
    by (cases err) (simp_all add: handler_gateway respond_def failure_message_def)
next
  case Never
  then show ?thesis
    by (simp add: handler_gateway respond_def)
qed

theorem envelope_shape_witness:
  "fst (handler Daily_interbank not_found_runtime example_args) =
     Fulfilled 120
       \<lparr>content = [\<lparr>ctype = ''text'', ctext = ''Error: API request failed with status 404''\<rparr>],
        isError = Some True\<rparr> \<and>
   fst (handler Quarterly_exchange silent_runtime example_args) =
     Fulfilled 30000
       \<lparr>content = [\<lparr>ctype = ''text'', ctext = ''Error: API request timed out''\<rparr>],
        isError = Some True\<rparr> \<and>
   fst (handler Daily_interbank rate_runtime example_args) =
     Fulfilled 120 \<lparr>content = [\<lparr>ctype = ''text'', ctext = rate_text\<rparr>], isError = None\<rparr> \<and>
   length (content
     \<lparr>content = [\<lparr>ctype = ''text'', ctext = ''Error: API request timed out''\<rparr>],
      isError = Some True\<rparr>) = 1"
proof -
  have c: "fst (handler Daily_interbank rate_runtime example_args) =
     Fulfilled 120 \<lparr>content = [\<lparr>ctype = ''text'', ctext = rate_text\<rparr>], isError = None\<rparr>"
    using envelope_shape [where rt = rate_runtime and tool = Daily_interbank
        and a = example_args, THEN conjunct1]
    unfolding gateway_rate by (simp add: example_runtime_simps stringify_rate)
  have a: "fst (handler Daily_interbank not_found_runtime example_args) =
     Fulfilled 120
       \<lparr>content = [\<lparr>ctype = ''text'', ctext = ''Error: API request failed with status 404''\<rparr>],
        isError = Some True\<rparr>"
    using envelope_shape [where rt = not_found_runtime and tool = Daily_interbank
        and a = example_args, THEN conjunct1]
    unfolding gateway_not_found by simp
  have b: "fst (handler Quarterly_exchange silent_runtime example_args) =
     Fulfilled 30000
       \<lparr>content = [\<lparr>ctype = ''text'', ctext = ''Error: API request timed out''\<rparr>],
        isError = Some True\<rparr>"
    using envelope_shape [where rt = silent_runtime and tool = Quarterly_exchange
        and a = example_args, THEN conjunct1]
    unfolding gateway_silent by simp
  from envelope_shape [where rt = silent_runtime and tool = Quarterly_exchange
        and a = example_args, THEN conjunct2, THEN conjunct1] b
  have "length (content
     \<lparr>content = [\<lparr>ctype = ''text'', ctext = ''Error: API request timed out''\<rparr>],
      isError = Some True\<rparr>) = 1"
    by blast
  with a b c show ?thesis
    by blast
qed

section \<open>The deadline\<close>

text \<open>
  Claim C2, evaluated where it fails. The upstream sends the headers of a 200 response
  after 100 ms and the end of the body after 100000 ms: the upstream call has not
  completed within 30000 ms, yet the timer is cleared at 100 ms, nothing is aborted and
  the invocation returns a success envelope at 100000 ms.
\<close>

theorem body_read_outlives_deadline:
  "get_daily_interbank_rate slow_body_runtime example_args =
     (Fulfilled 100000 \<lparr>content = [\<lparr>ctype = ''text'', ctext = ''[]''\<rparr>], isError = None\<rparr>,
      [SetTimeout 30000, Fetch example_request, ClearTimeout 100])"
proof -
  have key: "process_env slow_body_runtime ''BOT_API_KEY'' = Some ''key''"
    by (simp add: example_runtime_simps)
  have slow: "makeApiRequest slow_body_runtime REFERENCE_RATE_BASE_URL ''/DAILY_REF_RATE/''
      [(''start_period'', ''2024-01-01''), (''end_period'', ''2024-01-31'')] =
     (response_json slow_body_runtime 100 \<lparr>status = 200, body = ''[]'', body_delay = Some 99900\<rparr>,
      [SetTimeout REQUEST_TIMEOUT_MS, Fetch example_request, ClearTimeout 100])"
    unfolding example_request_eq [symmetric]
    by (rule body_not_covered [OF key])
      (simp_all add: example_runtime_simps REQUEST_TIMEOUT_MS_def response_ok_def)
  have args: "start_period example_args = ''2024-01-01''" "end_period example_args = ''2024-01-31''"
    by (simp_all add: example_args_def)
  have json: "response_json slow_body_runtime 100
        \<lparr>status = 200, body = ''[]'', body_delay = Some 99900\<rparr> = Fulfilled 100000 (JArray [])"
    by (simp add: response_json_def example_runtime_simps example_parse_def parse_table_def)
  have fmt: "formatResponse slow_body_runtime (JArray []) = ''[]''"
    by (simp add: formatResponse_def example_runtime_simps stringify_def)
  show ?thesis
    unfolding get_daily_interbank_rate_def args slow json
    by (simp add: respond_def fmt REQUEST_TIMEOUT_MS_def)
qed

section \<open>The payload in the success envelope\<close>


text \<open>The serialiser prints a number that is not finite as \<open>null\<close>.\<close>

lemma not_finite_prints_null:
  "num n = None \<Longrightarrow> SerializeJSONProperty num gap indent (JNumber n) = ''null''"
  by simp




end
